theory Spec2Isabelle
  imports Complex_Main
begin

section \<open>Values, documents and JavaScript comparison\<close>

text \<open>
  The cloud functions of \<^verbatim>\<open>functions/index.js\<close> work on plain JavaScript objects:
  the JSON body of a device message, the configuration document and the error document
  of a device. The values that occur are numbers and booleans; reading a property that
  an object does not have yields \<^verbatim>\<open>undefined\<close>. Numbers are the finite doubles, read
  as the real numbers they denote (the order on them is the order of the reals). The
  literal \<^verbatim>\<open>0.6\<close> of the module is the double nearest to 0.6; no double lies strictly
  between the two, so a double is greater than the one exactly when it is greater than
  the other, and the model compares with 0.6 itself.
\<close>

datatype jsval = Num real | Bool bool | Undefined

text \<open>
  A device message and an error document are objects looked up by key. A configuration
  document is kept as the list of its own properties in enumeration order, since
  \<^verbatim>\<open>for (const config in configData)\<close> walks them in that order.
\<close>

type_synonym object = "string \<rightharpoonup> jsval"
type_synonym config = "(string \<times> jsval) list"
type_synonym errors = "string \<rightharpoonup> bool"

text \<open>\<^verbatim>\<open>key in obj\<close>\<close>

definition has_key :: "string \<Rightarrow> object \<Rightarrow> bool" where
  "has_key k obj = (obj k \<noteq> None)"

text \<open>\<^verbatim>\<open>obj.key\<close>\<close>

definition get_prop :: "object \<Rightarrow> string \<Rightarrow> jsval" where
  "get_prop obj k = (case obj k of None \<Rightarrow> Undefined | Some v \<Rightarrow> v)"

text \<open>\<^verbatim>\<open>ToNumber\<close>: \<open>None\<close> stands for NaN.\<close>

fun to_number :: "jsval \<Rightarrow> real option" where
  "to_number (Num r) = Some r"
| "to_number (Bool b) = Some (if b then 1 else 0)"
| "to_number Undefined = None"

text \<open>\<^verbatim>\<open>a < b\<close> and \<^verbatim>\<open>a > b\<close>: a comparison with NaN is false.\<close>

definition js_lt :: "jsval \<Rightarrow> jsval \<Rightarrow> bool" where
  "js_lt a b =
     (case to_number a of
        None \<Rightarrow> False
      | Some x \<Rightarrow> (case to_number b of None \<Rightarrow> False | Some y \<Rightarrow> x < y))"

definition js_gt :: "jsval \<Rightarrow> jsval \<Rightarrow> bool" where
  "js_gt a b = js_lt b a"

text \<open>\<^verbatim>\<open>!errorData.FLAG\<close>: a flag that is false or not in the document.\<close>

definition js_not :: "errors \<Rightarrow> string \<Rightarrow> bool" where
  "js_not errorData flag = (errorData flag \<noteq> Some True)"

section \<open>Constants of the module\<close>

definition GCLOUD_PROJECT :: string where "GCLOUD_PROJECT = ''piponics''"
definition REGISTRY_ID :: string where "REGISTRY_ID = ''RaspberryPis''"
definition IOT_REGION :: string where "IOT_REGION = ''us-central1''"

definition GENERIC_WARN_MSG :: string where
  "GENERIC_WARN_MSG = ''Please check your system to avoid damage...''"
definition TEMP_HIGH_MSG :: string where "TEMP_HIGH_MSG = ''TEMPERATURE TOO HIGH...''"
definition TEMP_LOW_MSG :: string where "TEMP_LOW_MSG = ''TEMPERATURE TOO LOW...''"
definition PH_HIGH_MSG :: string where "PH_HIGH_MSG = ''PH TOO HIGH...''"
definition PH_LOW_MSG :: string where "PH_LOW_MSG = ''PH TOO LOW...''"
definition BATTERY_LOW_MSG :: string where "BATTERY_LOW_MSG = ''BATTERY TOO LOW..''"
definition INTERNAL_LEAK_MSG :: string where "INTERNAL_LEAK_MSG = ''INTERNAL LEAK DETECTED...''"
definition LEAK_MSG :: string where "LEAK_MSG = ''LEAK DETECTED...''"

definition DEFAULT_CONFIG_DOC :: config where
  "DEFAULT_CONFIG_DOC =
     [(''max_ph'', Num 10),
      (''min_ph'', Num 5),
      (''max_temperature'', Num 25),
      (''min_temperature'', Num 15),
      (''peristaltic_pump_on'', Bool False),
      (''target_ph'', Num 7),
      (''update_interval_minutes'', Num 30)]"

definition DEFAULT_ERROR_DOC :: errors where
  "DEFAULT_ERROR_DOC =
     [''PH_HIGH'' \<mapsto> False,
      ''PH_LOW'' \<mapsto> False,
      ''TEMP_HIGH'' \<mapsto> False,
      ''TEMP_LOW'' \<mapsto> False,
      ''WATER_LEVEL_LOW'' \<mapsto> False,
      ''BATTERY_LOW'' \<mapsto> False,
      ''LEAK_DETECTED'' \<mapsto> False,
      ''INTERNAL_LEAK_DETECTED'' \<mapsto> False]"

definition MIN_BATTERY_VOLTAGE :: jsval where "MIN_BATTERY_VOLTAGE = Num 4.0"
definition MAX_LEAK_VOLTAGE :: jsval where "MAX_LEAK_VOLTAGE = Num 0.6"

section \<open>Notifications\<close>

text \<open>
  \<^verbatim>\<open>sendFCMNotification\<close> hands a topic, a message and delivery options to
  \<^verbatim>\<open>admin.messaging().sendToTopic\<close>. The record holds what is handed over; sending is
  appending the record to the list of messages sent so far.
\<close>

record notification =
  topic :: string
  title :: string
  body :: string
  sound :: string
  priority :: string
  timeToLive :: nat

definition sendFCMNotification :: "string \<Rightarrow> string \<Rightarrow> string \<Rightarrow> notification" where
  "sendFCMNotification topic' title' body' =
     \<lparr>topic = topic', title = title', body = body', sound = ''default'',
      priority = ''high'', timeToLive = 60 * 60 * 24\<rparr>"

section \<open>detectSystemErrors\<close>

text \<open>
  The function mutates \<^verbatim>\<open>errorData\<close> in place and sends notifications on the way. The
  model threads the pair of the error document and the notifications sent so far.
\<close>

type_synonym outcome = "errors \<times> notification list"

text \<open>The body of the \<^verbatim>\<open>for ... in\<close> loop: the \<^verbatim>\<open>switch (config)\<close> on one property name.\<close>

definition config_case :: "string \<Rightarrow> object \<Rightarrow> config \<Rightarrow> string \<Rightarrow> outcome \<Rightarrow> outcome" where
  "config_case deviceId deviceData configData config st =
     (case st of (errorData, sent) \<Rightarrow>
        if config = ''min_temperature'' then
          (if has_key ''temperature'' deviceData then
             (if js_lt (get_prop deviceData ''temperature'')
                       (get_prop (map_of configData) ''min_temperature'') then
                (errorData(''TEMP_LOW'' \<mapsto> True),
                 if js_not errorData ''TEMP_LOW''
                 then sent @ [sendFCMNotification deviceId
                                (deviceId @ '': '' @ TEMP_LOW_MSG) GENERIC_WARN_MSG]
                 else sent)
              else (errorData(''TEMP_LOW'' \<mapsto> False), sent))
           else (errorData, sent))
        else if config = ''max_temperature'' then
          (if has_key ''temperature'' deviceData then
             (if js_gt (get_prop deviceData ''temperature'')
                       (get_prop (map_of configData) ''max_temperature'') then
                (errorData(''TEMP_HIGH'' \<mapsto> True),
                 if js_not errorData ''TEMP_HIGH''
                 then sent @ [sendFCMNotification deviceId
                                (deviceId @ '': '' @ TEMP_HIGH_MSG) GENERIC_WARN_MSG]
                 else sent)
              else (errorData(''TEMP_HIGH'' \<mapsto> False), sent))
           else (errorData, sent))
        else if config = ''max_ph'' then
          (if has_key ''pH'' deviceData then
             (if js_gt (get_prop deviceData ''pH'') (get_prop (map_of configData) ''max_ph'') then
                (errorData(''PH_HIGH'' \<mapsto> True),
                 if js_not errorData ''PH_HIGH''
                 then sent @ [sendFCMNotification deviceId
                                (deviceId @ '': '' @ PH_HIGH_MSG) GENERIC_WARN_MSG]
                 else sent)
              else (errorData(''PH_HIGH'' \<mapsto> False), sent))
           else (errorData, sent))
        else if config = ''min_ph'' then
          (if has_key ''pH'' deviceData then
             (if js_lt (get_prop deviceData ''pH'') (get_prop (map_of configData) ''min_ph'') then
                (errorData(''PH_LOW'' \<mapsto> True),
                 if js_not errorData ''PH_LOW''
                 then sent @ [sendFCMNotification deviceId
                                (deviceId @ '': '' @ PH_LOW_MSG) GENERIC_WARN_MSG]
                 else sent)
              else (errorData(''PH_LOW'' \<mapsto> False), sent))
           else (errorData, sent))
        else (errorData, sent))"

text \<open>The three checks after the loop, against the built-in constants.\<close>

definition battery_check :: "string \<Rightarrow> object \<Rightarrow> outcome \<Rightarrow> outcome" where
  "battery_check deviceId deviceData st =
     (case st of (errorData, sent) \<Rightarrow>
        if has_key ''battery_voltage'' deviceData then
          (if js_lt (get_prop deviceData ''battery_voltage'') MIN_BATTERY_VOLTAGE then
             (errorData(''BATTERY_LOW'' \<mapsto> True),
              if js_not errorData ''BATTERY_LOW''
              then sent @ [sendFCMNotification deviceId
                             (deviceId @ '': '' @ BATTERY_LOW_MSG) GENERIC_WARN_MSG]
              else sent)
           else (errorData(''BATTERY_LOW'' \<mapsto> False), sent))
        else (errorData, sent))"

definition internal_leak_check :: "string \<Rightarrow> object \<Rightarrow> outcome \<Rightarrow> outcome" where
  "internal_leak_check deviceId deviceData st =
     (case st of (errorData, sent) \<Rightarrow>
        if has_key ''internal_leak'' deviceData then
          (if js_gt (get_prop deviceData ''internal_leak'') MAX_LEAK_VOLTAGE then
             (errorData(''INTERNAL_LEAK_DETECTED'' \<mapsto> True),
              if js_not errorData ''INTERNAL_LEAK_DETECTED''
              then sent @ [sendFCMNotification deviceId
                             (deviceId @ '' '' @ INTERNAL_LEAK_MSG) GENERIC_WARN_MSG]
              else sent)
           else (errorData(''INTERNAL_LEAK_DETECTED'' \<mapsto> False), sent))
        else (errorData, sent))"

definition leak_check :: "string \<Rightarrow> object \<Rightarrow> outcome \<Rightarrow> outcome" where
  "leak_check deviceId deviceData st =
     (case st of (errorData, sent) \<Rightarrow>
        if has_key ''leak'' deviceData then
          (if js_gt (get_prop deviceData ''leak'') MAX_LEAK_VOLTAGE then
             (errorData(''LEAK_DETECTED'' \<mapsto> True),
              if js_not errorData ''LEAK_DETECTED''
              then sent @ [sendFCMNotification deviceId
                             (deviceId @ '': '' @ LEAK_MSG) GENERIC_WARN_MSG]
              else sent)
           else (errorData(''LEAK_DETECTED'' \<mapsto> False), sent))
        else (errorData, sent))"

text \<open>
  The result is the error document that the function writes to the Error collection
  under the device identifier, and the notifications it has sent, in order.
\<close>

definition detectSystemErrors :: "string \<Rightarrow> object \<Rightarrow> config \<Rightarrow> errors \<Rightarrow> outcome" where
  "detectSystemErrors deviceId deviceData configData errorData =
     leak_check deviceId deviceData
       (internal_leak_check deviceId deviceData
          (battery_check deviceId deviceData
             (fold (config_case deviceId deviceData configData) (map fst configData)
                (errorData, []))))"

section \<open>iotStoreDeviceUpdates\<close>

text \<open>
  The stores the function touches: the real-time database, and the Status, History,
  Config and Error collections of Firestore, each keyed by device identifier, together
  with the notifications handed to Firebase Cloud Messaging.
\<close>

record document =
  readings :: object
  timestamp :: nat

record world =
  database :: "string \<rightharpoonup> document"
  status_col :: "string \<rightharpoonup> document"
  history_col :: "string \<Rightarrow> document list"
  config_col :: "string \<rightharpoonup> config"
  error_col :: "string \<rightharpoonup> errors"
  messages :: "notification list"

text \<open>
  One published message: \<open>now\<close> is the value of \<^verbatim>\<open>admin.firestore.Timestamp.now()\<close>,
  \<open>json\<close> the body of the message. The \<^verbatim>\<open>timestamp\<close> property is set on the message
  object itself, replacing a property of that name; \<^verbatim>\<open>detectSystemErrors\<close> never reads
  it. When the device has no error document, the default is stored and the handler
  returns. Otherwise \<^verbatim>\<open>detectSystemErrors\<close> runs: its notifications are sent and its
  error document is stored under the device identifier.
\<close>

definition iotStoreDeviceUpdates :: "nat \<Rightarrow> string \<Rightarrow> object \<Rightarrow> world \<Rightarrow> world" where
  "iotStoreDeviceUpdates now deviceId json w =
     (let deviceData = \<lparr>readings = json(''timestamp'' := None), timestamp = now\<rparr>;
          w1 = w\<lparr>database := (database w)(deviceId \<mapsto> deviceData)\<rparr>;
          w2 = w1\<lparr>status_col := (status_col w1)(deviceId \<mapsto> deviceData)\<rparr>;
          w3 = w2\<lparr>history_col :=
                      (history_col w2)(deviceId := history_col w2 deviceId @ [deviceData])\<rparr>;
          (piConfigData, w4) =
            (case config_col w3 deviceId of
               None \<Rightarrow>
                 (DEFAULT_CONFIG_DOC,
                  w3\<lparr>config_col := (config_col w3)(deviceId \<mapsto> DEFAULT_CONFIG_DOC)\<rparr>)
             | Some data \<Rightarrow> (data, w3))
      in case error_col w4 deviceId of
           None \<Rightarrow> w4\<lparr>error_col := (error_col w4)(deviceId \<mapsto> DEFAULT_ERROR_DOC)\<rparr>
         | Some piErrorData \<Rightarrow>
             (case detectSystemErrors deviceId (readings deviceData) piConfigData piErrorData of
                (errorData, sent) \<Rightarrow>
                  w4\<lparr>messages := messages w4 @ sent,
                     error_col := (error_col w4)(deviceId \<mapsto> errorData)\<rparr>))"

text \<open>A store in which no device has been seen yet.\<close>

definition no_devices :: world where
  "no_devices =
     \<lparr>database = Map.empty, status_col = Map.empty, history_col = (\<lambda>_. []),
      config_col = Map.empty, error_col = Map.empty, messages = []\<rparr>"

section \<open>generateRequest and iotDeviceConfigUpdate\<close>

text \<open>
  \<^verbatim>\<open>client.devicePath\<close> of the Cloud IoT client, \<^verbatim>\<open>JSON.stringify\<close> on a document and
  \<^verbatim>\<open>Buffer.from(s).toString("base64")\<close> on a string belong to the platform, not to this
  module; they are parameters of the model.
\<close>

record request =
  name :: string
  binaryData :: string

datatype js_error = Error string | TypeError

text \<open>
  \<open>configData\<close> is the value passed in: a document, or \<open>None\<close> for \<^verbatim>\<open>undefined\<close>.
  \<^verbatim>\<open>JSON.stringify(undefined)\<close> is \<^verbatim>\<open>undefined\<close>, and \<^verbatim>\<open>Buffer.from(undefined)\<close> throws a
  TypeError, after the device path has been computed.
\<close>

definition generateRequest ::
  "(string \<Rightarrow> string \<Rightarrow> string \<Rightarrow> string \<Rightarrow> string) \<Rightarrow> (config \<Rightarrow> string) \<Rightarrow>
   (string \<Rightarrow> string) \<Rightarrow> string \<Rightarrow> config option \<Rightarrow> js_error + request" where
  "generateRequest devicePath stringify base64 deviceId configData =
     (let formattedName = devicePath GCLOUD_PROJECT IOT_REGION REGISTRY_ID deviceId
      in case map_option stringify configData of
           None \<Rightarrow> Inl TypeError
         | Some json \<Rightarrow>
             (let dataValue = base64 json
              in Inr \<lparr>name = formattedName, binaryData = dataValue\<rparr>))"

text \<open>
  The trigger on a write to a configuration document; it fires when the document is
  created, updated or deleted. \<open>context\<close> is the device identifier of
  \<^verbatim>\<open>context.params.deviceId\<close>, or \<open>None\<close> when the trigger passes no context. \<open>after\<close> is
  \<^verbatim>\<open>change.after.data()\<close>: the document that the write leaves, or \<open>None\<close> (that is,
  \<^verbatim>\<open>undefined\<close>) when the write deletes the document. The result is the request handed to
  \<^verbatim>\<open>client.modifyCloudToDeviceConfig\<close>, or the error thrown.
\<close>

definition iotDeviceConfigUpdate ::
  "(string \<Rightarrow> string \<Rightarrow> string \<Rightarrow> string \<Rightarrow> string) \<Rightarrow> (config \<Rightarrow> string) \<Rightarrow>
   (string \<Rightarrow> string) \<Rightarrow> config option \<Rightarrow> string option \<Rightarrow> js_error + request" where
  "iotDeviceConfigUpdate devicePath stringify base64 after context =
     (case context of
        Some deviceId \<Rightarrow> generateRequest devicePath stringify base64 deviceId after
      | None \<Rightarrow> Inl (Error ''no context from trigger''))"

section \<open>Conditions\<close>

text \<open>
  The seven conditions that \<^verbatim>\<open>detectSystemErrors\<close> checks, each with the flag it
  writes, the sensor it reads, the property of the configuration that switches its check
  on (the last three have none), the notification it sends and its comparison.
\<close>

datatype condition = TempLow | TempHigh | PhHigh | PhLow | BatteryLow | InternalLeak | Leak

fun flag :: "condition \<Rightarrow> string" where
  "flag TempLow = ''TEMP_LOW''"
| "flag TempHigh = ''TEMP_HIGH''"
| "flag PhHigh = ''PH_HIGH''"
| "flag PhLow = ''PH_LOW''"
| "flag BatteryLow = ''BATTERY_LOW''"
| "flag InternalLeak = ''INTERNAL_LEAK_DETECTED''"
| "flag Leak = ''LEAK_DETECTED''"

fun sensor :: "condition \<Rightarrow> string" where
  "sensor TempLow = ''temperature''"
| "sensor TempHigh = ''temperature''"
| "sensor PhHigh = ''pH''"
| "sensor PhLow = ''pH''"
| "sensor BatteryLow = ''battery_voltage''"
| "sensor InternalLeak = ''internal_leak''"
| "sensor Leak = ''leak''"

fun threshold_key :: "condition \<Rightarrow> string option" where
  "threshold_key TempLow = Some ''min_temperature''"
| "threshold_key TempHigh = Some ''max_temperature''"
| "threshold_key PhHigh = Some ''max_ph''"
| "threshold_key PhLow = Some ''min_ph''"
| "threshold_key BatteryLow = None"
| "threshold_key InternalLeak = None"
| "threshold_key Leak = None"

fun alert :: "string \<Rightarrow> condition \<Rightarrow> notification" where
  "alert deviceId TempLow =
     sendFCMNotification deviceId (deviceId @ '': '' @ TEMP_LOW_MSG) GENERIC_WARN_MSG"
| "alert deviceId TempHigh =
     sendFCMNotification deviceId (deviceId @ '': '' @ TEMP_HIGH_MSG) GENERIC_WARN_MSG"
| "alert deviceId PhHigh =
     sendFCMNotification deviceId (deviceId @ '': '' @ PH_HIGH_MSG) GENERIC_WARN_MSG"
| "alert deviceId PhLow =
     sendFCMNotification deviceId (deviceId @ '': '' @ PH_LOW_MSG) GENERIC_WARN_MSG"
| "alert deviceId BatteryLow =
     sendFCMNotification deviceId (deviceId @ '': '' @ BATTERY_LOW_MSG) GENERIC_WARN_MSG"
| "alert deviceId InternalLeak =
     sendFCMNotification deviceId (deviceId @ '' '' @ INTERNAL_LEAK_MSG) GENERIC_WARN_MSG"
| "alert deviceId Leak =
     sendFCMNotification deviceId (deviceId @ '': '' @ LEAK_MSG) GENERIC_WARN_MSG"

fun message :: "condition \<Rightarrow> string" where
  "message TempLow = TEMP_LOW_MSG"
| "message TempHigh = TEMP_HIGH_MSG"
| "message PhHigh = PH_HIGH_MSG"
| "message PhLow = PH_LOW_MSG"
| "message BatteryLow = BATTERY_LOW_MSG"
| "message InternalLeak = INTERNAL_LEAK_MSG"
| "message Leak = LEAK_MSG"

fun exceeded :: "condition \<Rightarrow> object \<Rightarrow> config \<Rightarrow> bool" where
  "exceeded TempLow deviceData configData =
     js_lt (get_prop deviceData ''temperature'')
           (get_prop (map_of configData) ''min_temperature'')"
| "exceeded TempHigh deviceData configData =
     js_gt (get_prop deviceData ''temperature'')
           (get_prop (map_of configData) ''max_temperature'')"
| "exceeded PhHigh deviceData configData =
     js_gt (get_prop deviceData ''pH'') (get_prop (map_of configData) ''max_ph'')"
| "exceeded PhLow deviceData configData =
     js_lt (get_prop deviceData ''pH'') (get_prop (map_of configData) ''min_ph'')"
| "exceeded BatteryLow deviceData configData =
     js_lt (get_prop deviceData ''battery_voltage'') MIN_BATTERY_VOLTAGE"
| "exceeded InternalLeak deviceData configData =
     js_gt (get_prop deviceData ''internal_leak'') MAX_LEAK_VOLTAGE"
| "exceeded Leak deviceData configData =
     js_gt (get_prop deviceData ''leak'') MAX_LEAK_VOLTAGE"

text \<open>The check of a condition runs: its sensor is in the reading and its switch is on.\<close>

definition examined :: "condition \<Rightarrow> object \<Rightarrow> config \<Rightarrow> bool" where
  "examined c deviceData configData =
     (has_key (sensor c) deviceData \<and>
      (case threshold_key c of None \<Rightarrow> True | Some k \<Rightarrow> k \<in> set (map fst configData)))"

text \<open>The \<^verbatim>\<open>case\<close> label that a property name selects in the loop.\<close>

definition key_condition :: "string \<Rightarrow> condition option" where
  "key_condition k =
     (if k = ''min_temperature'' then Some TempLow
      else if k = ''max_temperature'' then Some TempHigh
      else if k = ''max_ph'' then Some PhHigh
      else if k = ''min_ph'' then Some PhLow
      else None)"

text \<open>The shape that all seven checks share, with flag, notification and tests left open.\<close>

definition check :: "string \<Rightarrow> notification \<Rightarrow> bool \<Rightarrow> bool \<Rightarrow> outcome \<Rightarrow> outcome" where
  "check f n present viol st =
     (case st of (e, sent) \<Rightarrow>
        if present then
          (if viol then (e(f \<mapsto> True), if e f \<noteq> Some True then sent @ [n] else sent)
           else (e(f \<mapsto> False), sent))
        else (e, sent))"

definition check_of :: "string \<Rightarrow> object \<Rightarrow> config \<Rightarrow> condition \<Rightarrow> outcome \<Rightarrow> outcome" where
  "check_of d r c C = check (flag C) (alert d C) (has_key (sensor C) r) (exceeded C r c)"

text \<open>
  A run of evaluations: each reading, with the configuration in force when it arrives, is
  evaluated against the error document that the evaluation before it wrote.
\<close>

fun evaluations :: "errors \<Rightarrow> (string \<times> object \<times> config) list \<Rightarrow> errors" where
  "evaluations errorData [] = errorData"
| "evaluations errorData ((deviceId, deviceData, configData) # rest) =
     evaluations (fst (detectSystemErrors deviceId deviceData configData errorData)) rest"

section \<open>What one evaluation does to a flag and to the notifications\<close>

lemma fst_check: "fst (check f n p v st) g = (if g = f \<and> p then Some v else fst st g)"
  by (cases st) (simp add: check_def)

lemma count_check:
  "count_list (snd (check f n p v st)) m =
     count_list (snd st) m + (if m = n \<and> p \<and> v \<and> fst st f \<noteq> Some True then 1 else 0)"
  by (cases st) (simp add: check_def)

lemma set_check: "set (snd (check f n p v st)) \<subseteq> insert n (set (snd st))"
  by (cases st) (auto simp add: check_def)

lemma flag_inj: "flag C = flag C' \<longleftrightarrow> C = C'"
  by (cases C; cases C'; simp)

lemma alert_inj: "alert d C = alert d C' \<longleftrightarrow> C = C'"
  by (cases C; cases C'; simp add: sendFCMNotification_def TEMP_HIGH_MSG_def TEMP_LOW_MSG_def
     PH_HIGH_MSG_def PH_LOW_MSG_def BATTERY_LOW_MSG_def INTERNAL_LEAK_MSG_def LEAK_MSG_def)

lemma battery_check_eq: "battery_check d r = check_of d r c BatteryLow"
  by (rule ext) (simp add: battery_check_def check_of_def check_def js_not_def split: prod.splits)

lemma internal_leak_check_eq: "internal_leak_check d r = check_of d r c InternalLeak"
  by (rule ext) (simp add: internal_leak_check_def check_of_def check_def js_not_def split: prod.splits)

lemma leak_check_eq: "leak_check d r = check_of d r c Leak"
  by (rule ext) (simp add: leak_check_def check_of_def check_def js_not_def split: prod.splits)

lemma config_case_eq:
  "config_case d r c k = (case key_condition k of None \<Rightarrow> id | Some C \<Rightarrow> check_of d r c C)"
  by (rule ext)
     (simp add: config_case_def key_condition_def check_of_def check_def js_not_def
        split: prod.splits)

lemma key_condition_iff: "key_condition k = Some C \<longleftrightarrow> threshold_key C = Some k"
  by (cases C) (auto simp add: key_condition_def split: if_splits)

lemma fst_check_of:
  "fst (check_of d r c C' st) g = (if g = flag C' \<and> has_key (sensor C') r then Some (exceeded C' r c) else fst st g)"
  by (simp add: check_of_def fst_check)

lemma count_check_of:
  "count_list (snd (check_of d r c C' st)) (alert d C) =
     count_list (snd st) (alert d C) +
     (if C = C' \<and> has_key (sensor C') r \<and> exceeded C' r c \<and> fst st (flag C') \<noteq> Some True
      then 1 else 0)"
  by (simp add: check_of_def count_check alert_inj)

lemma set_check_of: "set (snd (check_of d r c C' st)) \<subseteq> set (snd st) \<union> range (alert d)"
  using set_check [of "flag C'" "alert d C'" "has_key (sensor C') r" "exceeded C' r c" st]
  by (auto simp add: check_of_def)

lemma fold_config_flag:
  "fst (fold (config_case d r c) ks st) (flag C) =
     (if (\<exists>k\<in>set ks. key_condition k = Some C) \<and> has_key (sensor C) r
      then Some (exceeded C r c) else fst st (flag C))"
proof (induction ks arbitrary: st)
  case Nil
  then show ?case by simp
next
  case (Cons k ks)
  show ?case
  proof (cases "key_condition k")
    case None
    then show ?thesis using Cons.IH [of st] by (simp add: config_case_eq)
  next
    case (Some C')
    then show ?thesis
      using Cons.IH [of "check_of d r c C' st"]
      by (auto simp add: config_case_eq fst_check_of flag_inj)
  qed
qed

lemma fold_config_other:
  "g \<notin> range flag \<Longrightarrow> fst (fold (config_case d r c) ks st) g = fst st g"
proof (induction ks arbitrary: st)
  case Nil
  then show ?case by simp
next
  case (Cons k ks)
  then show ?case
    by (cases "key_condition k") (auto simp add: config_case_eq fst_check_of)
qed

lemma fold_config_count:
  "count_list (snd (fold (config_case d r c) ks st)) (alert d C) =
     count_list (snd st) (alert d C) +
     (if (\<exists>k\<in>set ks. key_condition k = Some C) \<and> has_key (sensor C) r \<and> exceeded C r c \<and>
         fst st (flag C) \<noteq> Some True
      then 1 else 0)"
proof (induction ks arbitrary: st)
  case Nil
  then show ?case by simp
next
  case (Cons k ks)
  show ?case
  proof (cases "key_condition k")
    case None
    then show ?thesis using Cons.IH [of st] by (simp add: config_case_eq)
  next
    case (Some C')
    then show ?thesis
      using Cons.IH [of "check_of d r c C' st"]
      by (auto simp add: config_case_eq fst_check_of count_check_of flag_inj)
  qed
qed

lemma fold_config_set:
  "set (snd (fold (config_case d r c) ks st)) \<subseteq> set (snd st) \<union> range (alert d)"
proof (induction ks arbitrary: st)
  case Nil
  then show ?case by simp
next
  case (Cons k ks)
  show ?case
  proof (cases "key_condition k")
    case None
    then show ?thesis using Cons.IH [of st] by (simp add: config_case_eq)
  next
    case (Some C')
    then show ?thesis
      using Cons.IH [of "check_of d r c C' st"] set_check_of [of d r c C' st]
      by (auto simp add: config_case_eq)
  qed
qed

lemma detect_eq:
  "detectSystemErrors d r c e =
     check_of d r c Leak (check_of d r c InternalLeak (check_of d r c BatteryLow
       (fold (config_case d r c) (map fst c) (e, []))))"
  by (simp add: detectSystemErrors_def battery_check_eq [of d r c]
      internal_leak_check_eq [of d r c] leak_check_eq [of d r c])

lemma in_keys_iff:
  "(\<exists>k\<in>set ks. key_condition k = Some C) \<longleftrightarrow>
     (case threshold_key C of None \<Rightarrow> False | Some k \<Rightarrow> k \<in> set ks)"
  by (cases "threshold_key C") (auto simp add: key_condition_iff)

lemma fold_config_flag_keys:
  "fst (fold (config_case d r c) ks st) (flag C) =
     (if (case threshold_key C of None \<Rightarrow> False | Some k \<Rightarrow> k \<in> set ks) \<and>
         has_key (sensor C) r
      then Some (exceeded C r c) else fst st (flag C))"
  by (simp only: fold_config_flag in_keys_iff)

lemma fold_config_count_keys:
  "count_list (snd (fold (config_case d r c) ks st)) (alert d C) =
     count_list (snd st) (alert d C) +
     (if (case threshold_key C of None \<Rightarrow> False | Some k \<Rightarrow> k \<in> set ks) \<and>
         has_key (sensor C) r \<and> exceeded C r c \<and> fst st (flag C) \<noteq> Some True
      then 1 else 0)"
  by (simp only: fold_config_count in_keys_iff)

lemma detect_flag:
  "fst (detectSystemErrors d r c e) (flag C) =
     (if examined C r c then Some (exceeded C r c) else e (flag C))"
  by (cases C)
     (simp_all add: detect_eq fst_check_of fold_config_flag_keys examined_def flag_inj
        del: flag.simps)

lemma detect_other:
  assumes "g \<notin> range flag"
  shows "fst (detectSystemErrors d r c e) g = e g"
proof -
  have "g \<noteq> flag C" for C
    using assms by blast
  then show ?thesis
    by (simp add: detect_eq fst_check_of fold_config_other [OF assms] del: flag.simps)
qed

lemma detect_count:
  "count_list (snd (detectSystemErrors d r c e)) (alert d C) =
     (if examined C r c \<and> exceeded C r c \<and> e (flag C) \<noteq> Some True then 1 else 0)"
  by (cases C)
     (simp_all add: detect_eq fst_check_of count_check_of fold_config_flag_keys
        fold_config_count_keys examined_def flag_inj del: flag.simps alert.simps)

lemma detect_set: "set (snd (detectSystemErrors d r c e)) \<subseteq> range (alert d)"
  using set_check_of [of d r c] fold_config_set [of d r c "map fst c" "(e, [])"]
  unfolding detect_eq by (simp add: subset_iff) blast

lemma water_level_low_not_a_flag: "''WATER_LEVEL_LOW'' \<notin> range flag"
proof
  assume "''WATER_LEVEL_LOW'' \<in> range flag"
  then obtain C where "''WATER_LEVEL_LOW'' = flag C" ..
  then show False by (cases C) simp_all
qed

lemma evaluations_water_level_low:
  "evaluations errorData steps ''WATER_LEVEL_LOW'' = errorData ''WATER_LEVEL_LOW''"
proof (induction steps arbitrary: errorData)
  case Nil
  show ?case by simp
next
  case (Cons step steps)
  obtain deviceId deviceData configData where "step = (deviceId, deviceData, configData)"
    by (cases step)
  then show ?case
    using Cons.IH by (simp add: detect_other [OF water_level_low_not_a_flag])
qed

lemma in_keys_of_map_of: "map_of c k = Some v \<Longrightarrow> k \<in> set (map fst c)"
  by (auto dest: map_of_SomeD intro: rev_image_eqI)

lemma get_prop_Some: "obj k = Some v \<Longrightarrow> get_prop obj k = v"
  by (simp add: get_prop_def)

lemma js_lt_Num: "js_lt (Num a) (Num b) \<longleftrightarrow> a < b"
  by (simp add: js_lt_def)

lemma js_gt_Num: "js_gt (Num a) (Num b) \<longleftrightarrow> a > b"
  by (simp add: js_gt_def js_lt_def)

section \<open>Properties of one evaluation\<close>

text \<open>
  C3. A reading that omits a sensor leaves the flags of that sensor as they were in the
  prior error document: without \<^verbatim>\<open>temperature\<close> the flags TEMP_HIGH and TEMP_LOW are
  unchanged, without \<^verbatim>\<open>pH\<close> the flags PH_HIGH and PH_LOW, and likewise BATTERY_LOW,
  LEAK_DETECTED and INTERNAL_LEAK_DETECTED for their sensors. A flag that the prior
  document does not have stays absent.
\<close>

theorem absent_sensor_keeps_flags:
  "(\<not> has_key ''temperature'' deviceData \<longrightarrow>
      fst (detectSystemErrors deviceId deviceData configData errorData) ''TEMP_HIGH'' =
        errorData ''TEMP_HIGH'' \<and>
      fst (detectSystemErrors deviceId deviceData configData errorData) ''TEMP_LOW'' =
        errorData ''TEMP_LOW'') \<and>
   (\<not> has_key ''pH'' deviceData \<longrightarrow>
      fst (detectSystemErrors deviceId deviceData configData errorData) ''PH_HIGH'' =
        errorData ''PH_HIGH'' \<and>
      fst (detectSystemErrors deviceId deviceData configData errorData) ''PH_LOW'' =
        errorData ''PH_LOW'') \<and>
   (\<not> has_key ''battery_voltage'' deviceData \<longrightarrow>
      fst (detectSystemErrors deviceId deviceData configData errorData) ''BATTERY_LOW'' =
        errorData ''BATTERY_LOW'') \<and>
   (\<not> has_key ''leak'' deviceData \<longrightarrow>
      fst (detectSystemErrors deviceId deviceData configData errorData) ''LEAK_DETECTED'' =
        errorData ''LEAK_DETECTED'') \<and>
   (\<not> has_key ''internal_leak'' deviceData \<longrightarrow>
      fst (detectSystemErrors deviceId deviceData configData errorData)
        ''INTERNAL_LEAK_DETECTED'' = errorData ''INTERNAL_LEAK_DETECTED'')"
  using detect_flag [of deviceId deviceData configData errorData TempHigh]
    detect_flag [of deviceId deviceData configData errorData TempLow]
    detect_flag [of deviceId deviceData configData errorData PhHigh]
    detect_flag [of deviceId deviceData configData errorData PhLow]
    detect_flag [of deviceId deviceData configData errorData BatteryLow]
    detect_flag [of deviceId deviceData configData errorData Leak]
    detect_flag [of deviceId deviceData configData errorData InternalLeak]
  by (simp add: examined_def)

theorem absent_sensor_keeps_flags_witness:
  "\<not> has_key ''temperature'' Map.empty \<and> \<not> has_key ''pH'' Map.empty \<and>
   \<not> has_key ''battery_voltage'' Map.empty \<and> \<not> has_key ''leak'' Map.empty \<and>
   \<not> has_key ''internal_leak'' Map.empty \<and>
   fst (detectSystemErrors ''pi1'' Map.empty DEFAULT_CONFIG_DOC
          [''TEMP_HIGH'' \<mapsto> True, ''BATTERY_LOW'' \<mapsto> False]) ''TEMP_HIGH'' = Some True \<and>
   fst (detectSystemErrors ''pi1'' Map.empty DEFAULT_CONFIG_DOC
          [''TEMP_HIGH'' \<mapsto> True, ''BATTERY_LOW'' \<mapsto> False]) ''TEMP_LOW'' = None \<and>
   fst (detectSystemErrors ''pi1'' Map.empty DEFAULT_CONFIG_DOC
          [''TEMP_HIGH'' \<mapsto> True, ''BATTERY_LOW'' \<mapsto> False]) ''PH_HIGH'' = None \<and>
   fst (detectSystemErrors ''pi1'' Map.empty DEFAULT_CONFIG_DOC
          [''TEMP_HIGH'' \<mapsto> True, ''BATTERY_LOW'' \<mapsto> False]) ''BATTERY_LOW'' = Some False \<and>
   fst (detectSystemErrors ''pi1'' Map.empty DEFAULT_CONFIG_DOC
          [''TEMP_HIGH'' \<mapsto> True, ''BATTERY_LOW'' \<mapsto> False]) ''LEAK_DETECTED'' = None \<and>
   fst (detectSystemErrors ''pi1'' Map.empty DEFAULT_CONFIG_DOC
          [''TEMP_HIGH'' \<mapsto> True, ''BATTERY_LOW'' \<mapsto> False])
     ''INTERNAL_LEAK_DETECTED'' = None"
  using absent_sensor_keeps_flags [of Map.empty "''pi1''" DEFAULT_CONFIG_DOC
      "[''TEMP_HIGH'' \<mapsto> True, ''BATTERY_LOW'' \<mapsto> False]"]
  by (simp add: has_key_def)

text \<open>
  C4. When the sensor value is in the reading and the threshold is in the configuration,
  the flag written is the outcome of a strict comparison: the high flag is true exactly
  when the value is greater than the maximum, the low flag exactly when it is less than
  the minimum, so a value equal to the threshold clears the flag.
\<close>

theorem strict_threshold_comparison:
  "(deviceData ''temperature'' = Some (Num t) \<and>
    map_of configData ''max_temperature'' = Some (Num tmax) \<longrightarrow>
      fst (detectSystemErrors deviceId deviceData configData errorData) ''TEMP_HIGH'' =
        Some (t > tmax)) \<and>
   (deviceData ''temperature'' = Some (Num t) \<and>
    map_of configData ''min_temperature'' = Some (Num tmin) \<longrightarrow>
      fst (detectSystemErrors deviceId deviceData configData errorData) ''TEMP_LOW'' =
        Some (t < tmin)) \<and>
   (deviceData ''pH'' = Some (Num p) \<and>
    map_of configData ''max_ph'' = Some (Num pmax) \<longrightarrow>
      fst (detectSystemErrors deviceId deviceData configData errorData) ''PH_HIGH'' =
        Some (p > pmax)) \<and>
   (deviceData ''pH'' = Some (Num p) \<and>
    map_of configData ''min_ph'' = Some (Num pmin) \<longrightarrow>
      fst (detectSystemErrors deviceId deviceData configData errorData) ''PH_LOW'' =
        Some (p < pmin))"
  using detect_flag [of deviceId deviceData configData errorData TempHigh]
    detect_flag [of deviceId deviceData configData errorData TempLow]
    detect_flag [of deviceId deviceData configData errorData PhHigh]
    detect_flag [of deviceId deviceData configData errorData PhLow]
    in_keys_of_map_of [of configData]
  by (simp add: examined_def has_key_def get_prop_Some js_lt_Num js_gt_Num)

theorem strict_threshold_comparison_witness:
  "[''temperature'' \<mapsto> Num 25, ''pH'' \<mapsto> Num 4] ''temperature'' = Some (Num 25) \<and>
   [''temperature'' \<mapsto> Num 25, ''pH'' \<mapsto> Num 4] ''pH'' = Some (Num 4) \<and>
   map_of DEFAULT_CONFIG_DOC ''max_temperature'' = Some (Num 25) \<and>
   map_of DEFAULT_CONFIG_DOC ''min_temperature'' = Some (Num 15) \<and>
   map_of DEFAULT_CONFIG_DOC ''max_ph'' = Some (Num 10) \<and>
   map_of DEFAULT_CONFIG_DOC ''min_ph'' = Some (Num 5) \<and>
   fst (detectSystemErrors ''pi1'' [''temperature'' \<mapsto> Num 25, ''pH'' \<mapsto> Num 4]
          DEFAULT_CONFIG_DOC DEFAULT_ERROR_DOC) ''TEMP_HIGH'' = Some False \<and>
   fst (detectSystemErrors ''pi1'' [''temperature'' \<mapsto> Num 25, ''pH'' \<mapsto> Num 4]
          DEFAULT_CONFIG_DOC DEFAULT_ERROR_DOC) ''TEMP_LOW'' = Some False \<and>
   fst (detectSystemErrors ''pi1'' [''temperature'' \<mapsto> Num 25, ''pH'' \<mapsto> Num 4]
          DEFAULT_CONFIG_DOC DEFAULT_ERROR_DOC) ''PH_HIGH'' = Some False \<and>
   fst (detectSystemErrors ''pi1'' [''temperature'' \<mapsto> Num 25, ''pH'' \<mapsto> Num 4]
          DEFAULT_CONFIG_DOC DEFAULT_ERROR_DOC) ''PH_LOW'' = Some True"
  using strict_threshold_comparison
    [where deviceData = "[''temperature'' \<mapsto> Num 25, ''pH'' \<mapsto> Num 4]"
       and configData = DEFAULT_CONFIG_DOC and errorData = DEFAULT_ERROR_DOC
       and deviceId = "''pi1''" and t = 25 and p = 4 and tmax = 25 and tmin = 15
       and pmax = 10 and pmin = 5]
  by (simp add: DEFAULT_CONFIG_DOC_def)

text \<open>
  C5. The three checks against built-in constants: a battery voltage in the reading sets
  BATTERY_LOW exactly when it is below 4.0, a leak voltage sets LEAK_DETECTED exactly
  when it is above 0.6, an internal-leak voltage sets INTERNAL_LEAK_DETECTED exactly when
  it is above 0.6, and a value in range clears the flag. The three flags come out the
  same under any two configurations.
\<close>

theorem fixed_threshold_comparison:
  "(deviceData ''battery_voltage'' = Some (Num v) \<longrightarrow>
      fst (detectSystemErrors deviceId deviceData configData errorData) ''BATTERY_LOW'' =
        Some (v < 4.0)) \<and>
   (deviceData ''leak'' = Some (Num l) \<longrightarrow>
      fst (detectSystemErrors deviceId deviceData configData errorData) ''LEAK_DETECTED'' =
        Some (l > 0.6)) \<and>
   (deviceData ''internal_leak'' = Some (Num i) \<longrightarrow>
      fst (detectSystemErrors deviceId deviceData configData errorData)
        ''INTERNAL_LEAK_DETECTED'' = Some (i > 0.6)) \<and>
   fst (detectSystemErrors deviceId deviceData configData errorData) ''BATTERY_LOW'' =
     fst (detectSystemErrors deviceId deviceData otherConfig errorData) ''BATTERY_LOW'' \<and>
   fst (detectSystemErrors deviceId deviceData configData errorData) ''LEAK_DETECTED'' =
     fst (detectSystemErrors deviceId deviceData otherConfig errorData) ''LEAK_DETECTED'' \<and>
   fst (detectSystemErrors deviceId deviceData configData errorData)
       ''INTERNAL_LEAK_DETECTED'' =
     fst (detectSystemErrors deviceId deviceData otherConfig errorData)
       ''INTERNAL_LEAK_DETECTED''"
  using detect_flag [of deviceId deviceData configData errorData BatteryLow]
    detect_flag [of deviceId deviceData configData errorData Leak]
    detect_flag [of deviceId deviceData configData errorData InternalLeak]
    detect_flag [of deviceId deviceData otherConfig errorData BatteryLow]
    detect_flag [of deviceId deviceData otherConfig errorData Leak]
    detect_flag [of deviceId deviceData otherConfig errorData InternalLeak]
  by (simp add: examined_def has_key_def get_prop_Some js_lt_Num js_gt_Num
      MIN_BATTERY_VOLTAGE_def MAX_LEAK_VOLTAGE_def)

theorem fixed_threshold_comparison_witness:
  "[''battery_voltage'' \<mapsto> Num 4.0, ''leak'' \<mapsto> Num 0.7, ''internal_leak'' \<mapsto> Num 0.6]
     ''battery_voltage'' = Some (Num 4.0) \<and>
   [''battery_voltage'' \<mapsto> Num 4.0, ''leak'' \<mapsto> Num 0.7, ''internal_leak'' \<mapsto> Num 0.6]
     ''leak'' = Some (Num 0.7) \<and>
   [''battery_voltage'' \<mapsto> Num 4.0, ''leak'' \<mapsto> Num 0.7, ''internal_leak'' \<mapsto> Num 0.6]
     ''internal_leak'' = Some (Num 0.6) \<and>
   fst (detectSystemErrors ''pi1''
          [''battery_voltage'' \<mapsto> Num 4.0, ''leak'' \<mapsto> Num 0.7, ''internal_leak'' \<mapsto> Num 0.6]
          [] DEFAULT_ERROR_DOC) ''BATTERY_LOW'' = Some False \<and>
   fst (detectSystemErrors ''pi1''
          [''battery_voltage'' \<mapsto> Num 4.0, ''leak'' \<mapsto> Num 0.7, ''internal_leak'' \<mapsto> Num 0.6]
          [] DEFAULT_ERROR_DOC) ''LEAK_DETECTED'' = Some True \<and>
   fst (detectSystemErrors ''pi1''
          [''battery_voltage'' \<mapsto> Num 4.0, ''leak'' \<mapsto> Num 0.7, ''internal_leak'' \<mapsto> Num 0.6]
          [] DEFAULT_ERROR_DOC) ''INTERNAL_LEAK_DETECTED'' = Some False"
  using fixed_threshold_comparison
    [where deviceData =
       "[''battery_voltage'' \<mapsto> Num 4.0, ''leak'' \<mapsto> Num 0.7, ''internal_leak'' \<mapsto> Num 0.6]"
       and configData = "[]" and otherConfig = DEFAULT_CONFIG_DOC
       and errorData = DEFAULT_ERROR_DOC and deviceId = "''pi1''"
       and v = "4.0" and l = "0.7" and i = "0.6"]
  by simp

text \<open>
  C10. No evaluation changes WATER_LEVEL_LOW: the flag in the error document written
  equals the flag in the prior one. Hence after any run of evaluations that starts from
  the default error document the flag is still false.
\<close>

theorem water_level_low_never_changes:
  "fst (detectSystemErrors deviceId deviceData configData errorData) ''WATER_LEVEL_LOW'' =
     errorData ''WATER_LEVEL_LOW'' \<and>
   evaluations DEFAULT_ERROR_DOC steps ''WATER_LEVEL_LOW'' = Some False"
  by (simp add: detect_other [OF water_level_low_not_a_flag] evaluations_water_level_low
      DEFAULT_ERROR_DOC_def)

text \<open>
  C7. For a condition, the flag written and the number of notifications sent for it
  depend on the prior error document only through the flag of that condition: two prior
  documents that agree on it give the same flag and the same notifications for the
  condition, whatever their other flags are.
\<close>

theorem checks_read_only_their_own_flag:
  assumes "errorData (flag C) = otherErrorData (flag C)"
  shows "fst (detectSystemErrors deviceId deviceData configData errorData) (flag C) =
           fst (detectSystemErrors deviceId deviceData configData otherErrorData) (flag C) \<and>
         count_list (snd (detectSystemErrors deviceId deviceData configData errorData))
             (alert deviceId C) =
           count_list (snd (detectSystemErrors deviceId deviceData configData otherErrorData))
             (alert deviceId C)"
  using assms by (simp only: detect_flag detect_count)

theorem checks_read_only_their_own_flag_witness:
  "DEFAULT_ERROR_DOC (flag PhHigh) = (DEFAULT_ERROR_DOC(''BATTERY_LOW'' \<mapsto> True)) (flag PhHigh) \<and>
   fst (detectSystemErrors ''pi1'' [''pH'' \<mapsto> Num 11, ''battery_voltage'' \<mapsto> Num 3.0]
          DEFAULT_CONFIG_DOC DEFAULT_ERROR_DOC) (flag PhHigh) =
     fst (detectSystemErrors ''pi1'' [''pH'' \<mapsto> Num 11, ''battery_voltage'' \<mapsto> Num 3.0]
          DEFAULT_CONFIG_DOC (DEFAULT_ERROR_DOC(''BATTERY_LOW'' \<mapsto> True))) (flag PhHigh) \<and>
   count_list (snd (detectSystemErrors ''pi1''
          [''pH'' \<mapsto> Num 11, ''battery_voltage'' \<mapsto> Num 3.0]
          DEFAULT_CONFIG_DOC DEFAULT_ERROR_DOC)) (alert ''pi1'' PhHigh) =
     count_list (snd (detectSystemErrors ''pi1''
          [''pH'' \<mapsto> Num 11, ''battery_voltage'' \<mapsto> Num 3.0]
          DEFAULT_CONFIG_DOC (DEFAULT_ERROR_DOC(''BATTERY_LOW'' \<mapsto> True)))) (alert ''pi1'' PhHigh)"
proof -
  have h: "DEFAULT_ERROR_DOC (flag PhHigh) =
      (DEFAULT_ERROR_DOC(''BATTERY_LOW'' \<mapsto> True)) (flag PhHigh)"
    by simp
  show ?thesis
    using h checks_read_only_their_own_flag
      [where errorData = DEFAULT_ERROR_DOC
         and otherErrorData = "DEFAULT_ERROR_DOC(''BATTERY_LOW'' \<mapsto> True)"
         and C = PhHigh and deviceId = "''pi1''" and configData = DEFAULT_CONFIG_DOC
         and deviceData = "[''pH'' \<mapsto> Num 11, ''battery_voltage'' \<mapsto> Num 3.0]"]
    by blast
qed

text \<open>
  C1. In one evaluation, the notification of a condition is sent if and only if the flag
  of the condition was not true in the prior error document (false, or not there) and is
  true in the document written; it is sent at most once. When two readings in a row are
  out of range for the condition and the flag was not true before the first, the two
  evaluations together send exactly one notification for it: the second sends none. A
  flag that goes from true to false sends no notification.
\<close>

theorem notification_only_on_false_to_true:
  "(alert deviceId C \<in> set (snd (detectSystemErrors deviceId deviceData configData errorData))
      \<longleftrightarrow>
    errorData (flag C) \<noteq> Some True \<and>
    fst (detectSystemErrors deviceId deviceData configData errorData) (flag C) = Some True) \<and>
   count_list (snd (detectSystemErrors deviceId deviceData configData errorData))
     (alert deviceId C) \<le> 1 \<and>
   (errorData (flag C) \<noteq> Some True \<and>
    examined C deviceData configData \<and> exceeded C deviceData configData \<and>
    examined C nextData nextConfig \<and> exceeded C nextData nextConfig \<longrightarrow>
      count_list
        (snd (detectSystemErrors deviceId deviceData configData errorData) @
         snd (detectSystemErrors deviceId nextData nextConfig
                (fst (detectSystemErrors deviceId deviceData configData errorData))))
        (alert deviceId C) = 1) \<and>
   (errorData (flag C) = Some True \<and>
    fst (detectSystemErrors deviceId deviceData configData errorData) (flag C) = Some False
      \<longrightarrow>
    alert deviceId C \<notin> set (snd (detectSystemErrors deviceId deviceData configData errorData)))"
proof -
  have mem: "alert deviceId C \<in> set xs \<longleftrightarrow> count_list xs (alert deviceId C) \<noteq> 0" for xs
    by (simp add: count_list_0_iff)
  show ?thesis
    unfolding mem count_list_append detect_count detect_flag by auto
qed

theorem notification_only_on_false_to_true_witness:
  "DEFAULT_ERROR_DOC (flag TempHigh) \<noteq> Some True \<and>
   examined TempHigh [''temperature'' \<mapsto> Num 30] DEFAULT_CONFIG_DOC \<and>
   exceeded TempHigh [''temperature'' \<mapsto> Num 30] DEFAULT_CONFIG_DOC \<and>
   examined TempHigh [''temperature'' \<mapsto> Num 31] DEFAULT_CONFIG_DOC \<and>
   exceeded TempHigh [''temperature'' \<mapsto> Num 31] DEFAULT_CONFIG_DOC \<and>
   count_list
     (snd (detectSystemErrors ''pi1'' [''temperature'' \<mapsto> Num 30] DEFAULT_CONFIG_DOC
             DEFAULT_ERROR_DOC) @
      snd (detectSystemErrors ''pi1'' [''temperature'' \<mapsto> Num 31] DEFAULT_CONFIG_DOC
             (fst (detectSystemErrors ''pi1'' [''temperature'' \<mapsto> Num 30] DEFAULT_CONFIG_DOC
                     DEFAULT_ERROR_DOC))))
     (alert ''pi1'' TempHigh) = 1"
proof -
  have h: "DEFAULT_ERROR_DOC (flag TempHigh) \<noteq> Some True \<and>
      examined TempHigh [''temperature'' \<mapsto> Num 30] DEFAULT_CONFIG_DOC \<and>
      exceeded TempHigh [''temperature'' \<mapsto> Num 30] DEFAULT_CONFIG_DOC \<and>
      examined TempHigh [''temperature'' \<mapsto> Num 31] DEFAULT_CONFIG_DOC \<and>
      exceeded TempHigh [''temperature'' \<mapsto> Num 31] DEFAULT_CONFIG_DOC"
    by (simp add: DEFAULT_ERROR_DOC_def DEFAULT_CONFIG_DOC_def examined_def has_key_def
        get_prop_def js_gt_def js_lt_def)
  show ?thesis
    using h notification_only_on_false_to_true
      [where C = TempHigh and deviceId = "''pi1''" and errorData = DEFAULT_ERROR_DOC
         and deviceData = "[''temperature'' \<mapsto> Num 30]" and configData = DEFAULT_CONFIG_DOC
         and nextData = "[''temperature'' \<mapsto> Num 31]" and nextConfig = DEFAULT_CONFIG_DOC]
    by blast
qed

section \<open>Several conditions in one evaluation\<close>

lemma UNIV_condition:
  "(UNIV :: condition set) = {TempLow, TempHigh, PhHigh, PhLow, BatteryLow, InternalLeak, Leak}"
proof -
  have "C \<in> {TempLow, TempHigh, PhHigh, PhLow, BatteryLow, InternalLeak, Leak}" for C
    by (cases C) simp_all
  then show ?thesis by blast
qed

lemma length_sent:
  "length (snd (detectSystemErrors d r c e)) =
     (\<Sum>C\<in>UNIV. count_list (snd (detectSystemErrors d r c e)) (alert d C))"
proof -
  let ?xs = "snd (detectSystemErrors d r c e)"
  have fin: "finite (range (alert d))"
    by (simp add: UNIV_condition)
  have inj: "inj (alert d)"
    by (rule injI) (simp add: alert_inj)
  have "length ?xs = sum (count_list ?xs) (range (alert d))"
    using sum_count_set [OF detect_set fin] by simp
  also have "\<dots> = (\<Sum>C\<in>UNIV. count_list ?xs (alert d C))"
    by (simp add: sum.reindex [OF inj])
  finally show ?thesis .
qed

text \<open>
  C6. A reading with exactly pH 11 and battery voltage 3.0, a configuration whose
  \<^verbatim>\<open>max_ph\<close> is 10 (and whose \<^verbatim>\<open>min_ph\<close>, if it has one, is not above 11), and the
  all-false default as prior error document: exactly two notifications are sent, the one
  for high pH and the one for low battery, and the one error document written has both
  PH_HIGH and BATTERY_LOW true.
\<close>

theorem simultaneous_ph_and_battery:
  assumes "map_of configData ''max_ph'' = Some (Num 10)"
    and "\<not> js_lt (Num 11) (get_prop (map_of configData) ''min_ph'')"
  shows "length (snd (detectSystemErrors deviceId
                   [''pH'' \<mapsto> Num 11, ''battery_voltage'' \<mapsto> Num 3.0]
                   configData DEFAULT_ERROR_DOC)) = 2 \<and>
         alert deviceId PhHigh \<in>
           set (snd (detectSystemErrors deviceId
                  [''pH'' \<mapsto> Num 11, ''battery_voltage'' \<mapsto> Num 3.0]
                  configData DEFAULT_ERROR_DOC)) \<and>
         alert deviceId BatteryLow \<in>
           set (snd (detectSystemErrors deviceId
                  [''pH'' \<mapsto> Num 11, ''battery_voltage'' \<mapsto> Num 3.0]
                  configData DEFAULT_ERROR_DOC)) \<and>
         fst (detectSystemErrors deviceId
                [''pH'' \<mapsto> Num 11, ''battery_voltage'' \<mapsto> Num 3.0]
                configData DEFAULT_ERROR_DOC) ''PH_HIGH'' = Some True \<and>
         fst (detectSystemErrors deviceId
                [''pH'' \<mapsto> Num 11, ''battery_voltage'' \<mapsto> Num 3.0]
                configData DEFAULT_ERROR_DOC) ''BATTERY_LOW'' = Some True"
proof -
  let ?r = "[''pH'' \<mapsto> Num 11, ''battery_voltage'' \<mapsto> Num 3.0]"
  let ?out = "detectSystemErrors deviceId ?r configData DEFAULT_ERROR_DOC"
  have key: "''max_ph'' \<in> set (map fst configData)"
    using assms(1) by (rule in_keys_of_map_of)
  have ph: "examined PhHigh ?r configData \<and> exceeded PhHigh ?r configData"
    using key assms(1)
    by (simp add: examined_def has_key_def get_prop_def js_gt_def js_lt_def)
  have bat: "examined BatteryLow ?r configData \<and> exceeded BatteryLow ?r configData"
    by (simp add: examined_def has_key_def get_prop_def js_lt_def MIN_BATTERY_VOLTAGE_def)
  have low: "\<not> exceeded PhLow ?r configData"
    using assms(2) by (simp add: get_prop_def)
  have others: "\<not> examined TempLow ?r configData" "\<not> examined TempHigh ?r configData"
    "\<not> examined Leak ?r configData" "\<not> examined InternalLeak ?r configData"
    by (simp_all add: examined_def has_key_def)
  have prior: "DEFAULT_ERROR_DOC (flag C) = Some False" for C
    by (cases C) (simp_all add: DEFAULT_ERROR_DOC_def)
  have count: "count_list (snd ?out) (alert deviceId C) =
      (if C = PhHigh \<or> C = BatteryLow then 1 else 0)" for C
    unfolding detect_count using ph bat low others
    by (cases C) (simp_all add: prior del: flag.simps)
  have len: "length (snd ?out) = 2"
    unfolding length_sent count by (simp add: UNIV_condition)
  have mem: "alert deviceId PhHigh \<in> set (snd ?out)" "alert deviceId BatteryLow \<in> set (snd ?out)"
  proof -
    have "x \<in> set xs" if "count_list xs x = 1" for xs and x :: notification
      using that count_list_0_iff [of xs x] by auto
    then show "alert deviceId PhHigh \<in> set (snd ?out)"
      and "alert deviceId BatteryLow \<in> set (snd ?out)"
      using count [of PhHigh] count [of BatteryLow] by simp_all
  qed
  have flags: "fst ?out ''PH_HIGH'' = Some True" "fst ?out ''BATTERY_LOW'' = Some True"
    using detect_flag [of deviceId ?r configData DEFAULT_ERROR_DOC PhHigh]
      detect_flag [of deviceId ?r configData DEFAULT_ERROR_DOC BatteryLow] ph bat
    by simp_all
  show ?thesis
    using len mem flags by blast
qed

theorem simultaneous_ph_and_battery_witness:
  "map_of DEFAULT_CONFIG_DOC ''max_ph'' = Some (Num 10) \<and>
   \<not> js_lt (Num 11) (get_prop (map_of DEFAULT_CONFIG_DOC) ''min_ph'') \<and>
   length (snd (detectSystemErrors ''pi1''
                  [''pH'' \<mapsto> Num 11, ''battery_voltage'' \<mapsto> Num 3.0]
                  DEFAULT_CONFIG_DOC DEFAULT_ERROR_DOC)) = 2 \<and>
   fst (detectSystemErrors ''pi1''
          [''pH'' \<mapsto> Num 11, ''battery_voltage'' \<mapsto> Num 3.0]
          DEFAULT_CONFIG_DOC DEFAULT_ERROR_DOC) ''PH_HIGH'' = Some True \<and>
   fst (detectSystemErrors ''pi1''
          [''pH'' \<mapsto> Num 11, ''battery_voltage'' \<mapsto> Num 3.0]
          DEFAULT_CONFIG_DOC DEFAULT_ERROR_DOC) ''BATTERY_LOW'' = Some True"
proof -
  have h1: "map_of DEFAULT_CONFIG_DOC ''max_ph'' = Some (Num 10)"
    by (simp add: DEFAULT_CONFIG_DOC_def)
  have h2: "\<not> js_lt (Num 11) (get_prop (map_of DEFAULT_CONFIG_DOC) ''min_ph'')"
    by (simp add: DEFAULT_CONFIG_DOC_def get_prop_def js_lt_def)
  show ?thesis
    using h1 h2 simultaneous_ph_and_battery [OF h1 h2, of "''pi1''"] by blast
qed

section \<open>The notifications sent\<close>

text \<open>
  Every notification of an evaluation goes to the topic named by the device identifier,
  with the generic warning as body, priority high and a time to live of 86400 seconds.
  The title is the device identifier, a separator and the message of the condition; the
  separator is a colon and a space, except for the internal leak, where it is a space.
\<close>

lemma notification_fields:
  assumes "n \<in> set (snd (detectSystemErrors deviceId deviceData configData errorData))"
  shows "topic n = deviceId \<and> body n = GENERIC_WARN_MSG \<and> sound n = ''default'' \<and>
         priority n = ''high'' \<and> timeToLive n = 86400"
proof -
  obtain C where "n = alert deviceId C"
    using assms detect_set [of deviceId deviceData configData errorData] by blast
  then show ?thesis
    by (cases C) (simp_all add: sendFCMNotification_def)
qed

lemma notification_title:
  "title (alert deviceId C) =
     deviceId @ (if C = InternalLeak then '' '' else '': '') @ message C"
  by (cases C) (simp_all add: sendFCMNotification_def)

text \<open>
  C8. The specification asks that every notification, the one for an internal leak
  included, has the device identifier as topic, the title \<^verbatim>\<open><deviceId>: <message>\<close>,
  the generic warning as body, priority high and a time to live of 86400 seconds. For
  device \<^verbatim>\<open>pi1\<close> and a reading with an internal-leak voltage of 1 the function sends one
  notification, and its title is \<^verbatim>\<open>pi1 INTERNAL LEAK DETECTED...\<close>: the colon of the other
  six titles is missing.
\<close>

theorem internal_leak_title_lacks_colon:
  "snd (detectSystemErrors ''pi1'' [''internal_leak'' \<mapsto> Num 1] DEFAULT_CONFIG_DOC
          DEFAULT_ERROR_DOC) =
     [\<lparr>topic = ''pi1'', title = ''pi1 INTERNAL LEAK DETECTED...'',
       body = ''Please check your system to avoid damage...'', sound = ''default'',
       priority = ''high'', timeToLive = 86400\<rparr>]"
  by (simp add: detectSystemErrors_def DEFAULT_CONFIG_DOC_def DEFAULT_ERROR_DOC_def
      config_case_def battery_check_def internal_leak_check_def leak_check_def has_key_def
      get_prop_def js_gt_def js_lt_def js_not_def MAX_LEAK_VOLTAGE_def
      sendFCMNotification_def INTERNAL_LEAK_MSG_def GENERIC_WARN_MSG_def)

section \<open>Devices without a configuration or an error document\<close>

text \<open>
  A device without an error document gets the default one and nothing else happens for
  that message: no notification is sent. A device without a configuration document but
  with an error document gets the default configuration, and the reading is evaluated
  against it.
\<close>

lemma missing_error_document:
  assumes "error_col w deviceId = None"
  shows "messages (iotStoreDeviceUpdates now deviceId json w) = messages w \<and>
         error_col (iotStoreDeviceUpdates now deviceId json w) deviceId =
           Some DEFAULT_ERROR_DOC"
  using assms by (simp add: iotStoreDeviceUpdates_def Let_def split: option.splits)

lemma missing_config_document:
  assumes "config_col w deviceId = None" and "error_col w deviceId = Some errorData"
  shows "config_col (iotStoreDeviceUpdates now deviceId json w) deviceId =
           Some DEFAULT_CONFIG_DOC \<and>
         messages (iotStoreDeviceUpdates now deviceId json w) =
           messages w @
           snd (detectSystemErrors deviceId (json(''timestamp'' := None)) DEFAULT_CONFIG_DOC
                  errorData) \<and>
         error_col (iotStoreDeviceUpdates now deviceId json w) deviceId =
           Some (fst (detectSystemErrors deviceId (json(''timestamp'' := None))
                        DEFAULT_CONFIG_DOC errorData))"
  using assms by (simp add: iotStoreDeviceUpdates_def Let_def split: prod.splits)

text \<open>
  C2. The specification asks that a missing configuration or error document is replaced
  by the default and that the reading is then still evaluated against it. For the first message of
  device \<^verbatim>\<open>pi1\<close>, carrying temperature 30, both defaults are stored, but no notification
  is sent and the stored error document is the all-false default, although evaluating
  that reading against the two defaults sets TEMP_HIGH and sends one notification.
\<close>

theorem first_reading_is_not_evaluated:
  "messages (iotStoreDeviceUpdates 0 ''pi1'' [''temperature'' \<mapsto> Num 30] no_devices) = [] \<and>
   config_col (iotStoreDeviceUpdates 0 ''pi1'' [''temperature'' \<mapsto> Num 30] no_devices) ''pi1'' =
     Some DEFAULT_CONFIG_DOC \<and>
   error_col (iotStoreDeviceUpdates 0 ''pi1'' [''temperature'' \<mapsto> Num 30] no_devices) ''pi1'' =
     Some DEFAULT_ERROR_DOC \<and>
   DEFAULT_ERROR_DOC ''TEMP_HIGH'' = Some False \<and>
   fst (detectSystemErrors ''pi1'' [''temperature'' \<mapsto> Num 30] DEFAULT_CONFIG_DOC
          DEFAULT_ERROR_DOC) ''TEMP_HIGH'' = Some True \<and>
   snd (detectSystemErrors ''pi1'' [''temperature'' \<mapsto> Num 30] DEFAULT_CONFIG_DOC
          DEFAULT_ERROR_DOC) =
     [\<lparr>topic = ''pi1'', title = ''pi1: TEMPERATURE TOO HIGH...'',
       body = ''Please check your system to avoid damage...'', sound = ''default'',
       priority = ''high'', timeToLive = 86400\<rparr>]"
proof -
  have store: "messages (iotStoreDeviceUpdates 0 ''pi1'' [''temperature'' \<mapsto> Num 30] no_devices) = [] \<and>
      config_col (iotStoreDeviceUpdates 0 ''pi1'' [''temperature'' \<mapsto> Num 30] no_devices) ''pi1'' =
        Some DEFAULT_CONFIG_DOC \<and>
      error_col (iotStoreDeviceUpdates 0 ''pi1'' [''temperature'' \<mapsto> Num 30] no_devices) ''pi1'' =
        Some DEFAULT_ERROR_DOC"
    by (simp add: iotStoreDeviceUpdates_def no_devices_def Let_def)
  have prior: "DEFAULT_ERROR_DOC ''TEMP_HIGH'' = Some False"
    by (simp add: DEFAULT_ERROR_DOC_def)
  have eval: "detectSystemErrors ''pi1'' [''temperature'' \<mapsto> Num 30] DEFAULT_CONFIG_DOC
        DEFAULT_ERROR_DOC =
      (DEFAULT_ERROR_DOC(''TEMP_HIGH'' \<mapsto> True, ''TEMP_LOW'' \<mapsto> False),
       [\<lparr>topic = ''pi1'', title = ''pi1: TEMPERATURE TOO HIGH...'',
         body = ''Please check your system to avoid damage...'', sound = ''default'',
         priority = ''high'', timeToLive = 86400\<rparr>])"
    by (simp add: detectSystemErrors_def DEFAULT_CONFIG_DOC_def prior
        config_case_def battery_check_def internal_leak_check_def leak_check_def has_key_def
        get_prop_def js_gt_def js_lt_def js_not_def
        sendFCMNotification_def TEMP_HIGH_MSG_def GENERIC_WARN_MSG_def)
  show ?thesis
    using store prior by (simp add: eval)
qed

section \<open>Pushing a configuration to the device\<close>

text \<open>
  C9. For a write that leaves a configuration document of a device (the document is
  created or updated), the request handed to the Cloud IoT client has as name the device
  path built from the project \<^verbatim>\<open>piponics\<close>, the region \<^verbatim>\<open>us-central1\<close>, the registry
  \<^verbatim>\<open>RaspberryPis\<close> and the device identifier, and as binary data the base64 encoding of
  the JSON serialization of the whole document after the write.
\<close>

theorem config_push_request:
  "iotDeviceConfigUpdate devicePath stringify base64 (Some document) (Some deviceId) =
     Inr \<lparr>name = devicePath ''piponics'' ''us-central1'' ''RaspberryPis'' deviceId,
          binaryData = base64 (stringify document)\<rparr> \<and>
   generateRequest devicePath stringify base64 deviceId (Some document) =
     Inr \<lparr>name = devicePath ''piponics'' ''us-central1'' ''RaspberryPis'' deviceId,
          binaryData = base64 (stringify document)\<rparr>"
  by (simp add: iotDeviceConfigUpdate_def generateRequest_def GCLOUD_PROJECT_def
      IOT_REGION_def REGISTRY_ID_def)

text \<open>
  The trigger also fires when the configuration document of a device is deleted. For the
  deletion of the document of device \<^verbatim>\<open>pi1\<close> the handler throws a TypeError and hands no
  request to the client, whatever the platform functions are; so it is not the case that
  every write to a configuration document gives a request.
\<close>

theorem deletion_builds_no_request:
  "(\<forall>devicePath stringify base64.
      iotDeviceConfigUpdate devicePath stringify base64 None (Some ''pi1'') = Inl TypeError) \<and>
   \<not> (\<forall>devicePath stringify base64 after deviceId.
        \<exists>request.
          iotDeviceConfigUpdate devicePath stringify base64 after (Some deviceId) =
            Inr request)"
proof -
  have deleted: "iotDeviceConfigUpdate devicePath stringify base64 None (Some ''pi1'') =
      Inl TypeError" for devicePath stringify base64
    by (simp add: iotDeviceConfigUpdate_def generateRequest_def)
  then have "\<not> (\<exists>request.
      iotDeviceConfigUpdate devicePath stringify base64 None (Some ''pi1'') = Inr request)"
    for devicePath stringify base64
    by simp
  then show ?thesis
    using deleted by blast
qed

end
